theory Spec2Isabelle
  imports Complex_Main
begin

section \<open>Data model\<close>

text \<open>
  The descriptor type \<open>File\<close> (imported by \<open>downloader.ts\<close> from \<open>types/file\<close>) is used
  through the fields \<open>name\<close>, \<open>path\<close>, \<open>url\<close>, \<open>size\<close>, \<open>sha1\<close>, \<open>type\<close> and
  \<open>executable\<close>. Optional fields are options; \<open>size\<close> and \<open>type\<close> are written
  \<open>fsize\<close> and \<open>ftype\<close>, since \<open>size\<close> is a constant of HOL.
\<close>

datatype file_type = FILE | FOLDER

record File =
  name :: string
  path :: string
  url :: "string option"
  fsize :: "int option"
  sha1 :: "string option"
  ftype :: file_type
  executable :: bool

text \<open>
  JavaScript truthiness of an optional string (\<open>file.url\<close>, \<open>file.sha1\<close> used as a
  condition): \<open>undefined\<close> and the empty string are falsy.
\<close>

definition truthy :: "string option \<Rightarrow> bool" where
  "truthy s = (case s of None \<Rightarrow> False | Some v \<Rightarrow> v \<noteq> [])"

datatype ErrorType = DOWNLOAD_ERROR | FETCH_ERROR

text \<open>
  What a rejected promise carries: an \<open>EMLLibError\<close> with its type and message, or an
  error of the platform (file system, transport) with its message.
\<close>

datatype failure = EMLLibError ErrorType string | PlatformError string

section \<open>The local file system\<close>

text \<open>
  The file system as \<open>getFilesToDownload\<close> observes it: the directories, and the regular
  files with the digest \<open>utils.getFileHash\<close> computes for each (the helper is a parameter
  of the model: the digest is part of the file system's state).
\<close>

record fsys =
  dirs :: "string list"
  files :: "(string \<times> string) list"

fun join_segs :: "string list \<Rightarrow> string" where
  "join_segs [] = []"
| "join_segs [s] = s"
| "join_segs (s # ss) = s @ ''/'' @ join_segs ss"

text \<open>
  \<open>path_.join\<close>: the non-empty segments joined by the separator (the normalisation of
  \<open>.\<close>, \<open>..\<close> and repeated separators is not modelled).
\<close>

definition path_join :: "string list \<Rightarrow> string" where
  "path_join segs = join_segs (filter (\<lambda>s. s \<noteq> []) segs)"

text \<open>\<open>fs.access\<close> resolves iff the path exists (a directory or a regular file).\<close>

definition access :: "fsys \<Rightarrow> string \<Rightarrow> bool" where
  "access fs p = (p \<in> set (dirs fs) \<or> map_of (files fs) p \<noteq> None)"

text \<open>\<open>utils.getFileHash\<close>: the digest of a regular file; \<open>None\<close> when it throws.\<close>

definition getFileHash :: "fsys \<Rightarrow> string \<Rightarrow> string option" where
  "getFileHash fs p = map_of (files fs) p"

definition ancestors :: "string \<Rightarrow> string list" where
  "ancestors p = [take i p. i \<leftarrow> [1..<length p], p ! i = CHR ''/'']"

text \<open>
  \<open>fs.mkdir(p, {recursive: true})\<close>: creates \<open>p\<close> and its missing ancestors; it throws
  when \<open>p\<close> or an ancestor is a regular file.
\<close>

definition mkdir :: "fsys \<Rightarrow> string \<Rightarrow> failure + fsys" where
  "mkdir fs p =
     (if \<exists>q \<in> set (ancestors p @ [p]). map_of (files fs) q \<noteq> None
      then Inl (PlatformError p)
      else Inr (fs\<lparr>dirs := dirs fs @ filter (\<lambda>q. q \<notin> set (dirs fs)) (ancestors p @ [p])\<rparr>))"

section \<open>The diff resolver: getFilesToDownload\<close>

text \<open>
  Lines 95 to 104: \<open>needsDownload\<close> for one entry, on the file system as it is when the
  entry is checked. A throwing \<open>getFileHash\<close> lands in the \<open>catch\<close>, like a failed
  \<open>access\<close>.
\<close>

definition needsDownload :: "fsys \<Rightarrow> string \<Rightarrow> File \<Rightarrow> bool" where
  "needsDownload fs filePath file =
     (if access fs filePath
      then (if truthy (sha1 file)
            then (case getFileHash fs filePath of
                    None \<Rightarrow> True
                  | Some h \<Rightarrow> sha1 file \<noteq> Some h)
            else False)
      else True)"

text \<open>
  The callback of \<open>files.map\<close> (lines 85 to 109) for one entry: the file system after
  it, and either the failure it rejects with or whether it pushed the entry.
\<close>

definition checkEntry :: "string \<Rightarrow> fsys \<Rightarrow> File \<Rightarrow> fsys \<times> (failure + bool)" where
  "checkEntry dest fs file =
     (let filePath = path_join [dest, path file, name file];
          made = (if ftype file = FOLDER \<and> \<not> access fs filePath
                  then mkdir fs filePath else Inr fs)
      in case made of
           Inl e \<Rightarrow> (fs, Inl e)
         | Inr fs' \<Rightarrow> (fs', Inr (needsDownload fs' filePath file \<and> truthy (url file))))"

text \<open>
  \<open>getFilesToDownload\<close>: the callbacks are taken in the order of the list (one schedule
  of \<open>Promise.all\<close>); every callback runs, also after one has rejected, and the call
  rejects with the first failure.
\<close>

fun checkAll :: "string \<Rightarrow> File list \<Rightarrow> fsys \<times> File list \<times> failure option
    \<Rightarrow> fsys \<times> File list \<times> failure option" where
  "checkAll dest [] acc = acc"
| "checkAll dest (file # rest) (fs, filesToDownload, err) =
     (case checkEntry dest fs file of
        (fs', Inl e) \<Rightarrow>
          checkAll dest rest (fs', filesToDownload, (if err = None then Some e else err))
      | (fs', Inr pushed) \<Rightarrow>
          checkAll dest rest
            (fs', (if pushed then filesToDownload @ [file] else filesToDownload), err))"

definition getFilesToDownload :: "string \<Rightarrow> fsys \<Rightarrow> File list \<Rightarrow> fsys \<times> (failure + File list)" where
  "getFilesToDownload dest fs fls =
     (case checkAll dest fls (fs, [], None) of
        (fs', filesToDownload, None) \<Rightarrow> (fs', Inr filesToDownload)
      | (fs', filesToDownload, Some e) \<Rightarrow> (fs', Inl e))"

section \<open>The downloader's fields, events and effects\<close>

text \<open>The object \<open>{amount, size}\<close> of \<open>this.downloaded\<close> and of the events' payloads.\<close>

record counters =
  d_amount :: int
  d_size :: int

text \<open>An entry \<open>{size, time}\<close> of \<open>this.history\<close>; \<open>time\<close> is \<open>Date.now()\<close> in milliseconds.\<close>

record sample =
  h_size :: int
  h_time :: int

text \<open>
  The fields of the class \<open>Downloader\<close>; \<open>this.size\<close> and \<open>this.amount\<close>, the batch
  totals, are \<open>tsize\<close> and \<open>tamount\<close>. The quotients \<open>speed\<close> and \<open>eta\<close> are exact
  rationals (the source computes them in floating point).
\<close>

record Downloader =
  dest :: string
  tsize :: int
  tamount :: int
  downloaded :: counters
  error :: bool
  speed :: rat
  eta :: rat
  history :: "sample list"

text \<open>The three events, with the payload fields of the \<open>emit\<close> calls.\<close>

datatype event =
  download_progress (ev_total: counters) (ev_downloaded: counters) (ev_speed: rat)
    (ev_eta: int) (ev_type: file_type)
| download_error (ev_filename: string) file_type (ev_message: string)
| download_end counters

text \<open>
  What a batch does that can be observed from outside: an event emitted, a call of
  \<open>fetch\<close> for a descriptor, a timer set with its delay in milliseconds.
\<close>

datatype obs = Emit event | Fetch File | SetTimeout nat

section \<open>The worker pool as a transition system\<close>

text \<open>
  Where one of the workers of \<open>download\<close> (lines 60 to 67) stands: at the test of its
  \<open>while\<close> loop; in \<open>downloadFile\<close> before the response (with the attempt number of
  \<open>downloadFileWithRetry\<close>); streaming, with \<open>bytesDownloadedThisAttempt\<close>; after the
  stream's \<open>finish\<close>, waiting for \<open>chmodJavaFiles\<close>; waiting for the retry timer;
  returned; or rejected.
\<close>

datatype worker =
  Idle
| Starting File nat
| Streaming File nat int
| Finishing File nat
| Sleeping File nat
| Done
| Failed

text \<open>
  What the platform answers to \<open>downloadFile\<close> before streaming starts: \<open>fs.mkdir\<close>
  throws, \<open>fetch\<close> throws, or a response with \<open>res.ok\<close>, whether \<open>res.body\<close> is
  present, and \<open>res.statusText\<close>.
\<close>

datatype response =
  MkdirThrows string
| FetchThrows string
| Response bool bool string

text \<open>
  The callbacks the event loop can run for a worker. \<open>Data n now\<close> is a chunk of \<open>n\<close>
  bytes received when \<open>Date.now()\<close> is \<open>now\<close>; \<open>Chmod r\<close> is the outcome of \<open>fs.chmod\<close>
  (\<open>Some\<close> the message when it throws).
\<close>

datatype action =
  Next
| Respond response
| Data nat int
| BodyError string
| StreamError string
| Finish
| Chmod "string option"
| Timer

text \<open>
  A running \<open>download\<close> call: the instance, \<open>process.platform === 'win32'\<close>, the shared
  queue, the workers, what has been observed so far, and how the call has settled
  (\<open>None\<close> while it is pending).
\<close>

record batch =
  dl :: Downloader
  win32 :: bool
  queue :: "File list"
  workers :: "worker list"
  log :: "obs list"
  outcome :: "(failure + unit) option"

definition emit :: "event \<Rightarrow> batch \<Rightarrow> batch" where
  "emit e st = st\<lparr>log := log st @ [Emit e]\<rparr>"

definition setWorker :: "nat \<Rightarrow> worker \<Rightarrow> batch \<Rightarrow> batch" where
  "setWorker w x st = st\<lparr>workers := (workers st)[w := x]\<rparr>"

text \<open>
  A worker's promise rejects: \<open>Promise.all\<close> rejects with the first such failure, and
  \<open>download\<close> rethrows it (lines 69 to 74).
\<close>

definition rejectWith :: "failure \<Rightarrow> batch \<Rightarrow> batch" where
  "rejectWith e st = (if outcome st = None then st\<lparr>outcome := Some (Inl e)\<rparr> else st)"

text \<open>
  A worker returns: once every worker has returned, \<open>Promise.all\<close> resolves and line 71
  emits \<open>download_end\<close>.
\<close>

definition resolveAll :: "batch \<Rightarrow> batch" where
  "resolveAll st =
     (if outcome st = None \<and> list_all (\<lambda>x. x = Done) (workers st)
      then (emit (download_end (downloaded (dl st))) st)\<lparr>outcome := Some (Inr ())\<rparr>
      else st)"

subsection \<open>downloadFileWithRetry\<close>

text \<open>
  The \<open>catch\<close> clause of \<open>downloadFileWithRetry\<close> (lines 120 to 131), for worker \<open>w\<close>
  whose attempt number \<open>attempt\<close> on \<open>file\<close> failed with message \<open>msg\<close>.
\<close>

definition catchRetry :: "nat \<Rightarrow> File \<Rightarrow> nat \<Rightarrow> string \<Rightarrow> batch \<Rightarrow> batch" where
  "catchRetry w file attempt msg st =
     (if attempt < 5
      then setWorker w (Sleeping file attempt)
             (st\<lparr>log := log st @ [SetTimeout (1000 * (attempt + 1))]\<rparr>)
      else rejectWith
             (EMLLibError DOWNLOAD_ERROR (''Failed to download '' @ name file @ '' after 5 attempts''))
             (setWorker w Failed (emit (download_error (name file) (ftype file) msg) st)))"

text \<open>Lines 118 and 119: the attempt succeeded.\<close>

definition succeed :: "nat \<Rightarrow> batch \<Rightarrow> batch" where
  "succeed w st =
     setWorker w Idle
       (st\<lparr>dl := (dl st)\<lparr>downloaded :=
          (downloaded (dl st))\<lparr>d_amount := d_amount (downloaded (dl st)) + 1\<rparr>\<rparr>\<rparr>)"

subsection \<open>downloadFile\<close>

text \<open>The \<open>while\<close> loop of lines 159 to 161.\<close>

fun prune :: "int \<Rightarrow> sample list \<Rightarrow> sample list" where
  "prune now [] = []"
| "prune now (s # ss) = (if now - h_time s > 6000 then prune now ss else s # ss)"

text \<open>
  The \<open>data\<close> handler (lines 156 to 180) on the instance: the new fields and the
  \<open>download_progress\<close> event. After the loop the history holds at least the sample just
  pushed, so \<open>this.history[0]\<close> exists (lemma \<open>prune_snoc_nonempty\<close>).
\<close>

definition onData :: "File \<Rightarrow> nat \<Rightarrow> int \<Rightarrow> Downloader \<Rightarrow> Downloader \<times> event" where
  "onData file n now d =
     (let h = prune now (history d @ [\<lparr>h_size = int n, h_time = now\<rparr>]);
          dld = (downloaded d)\<lparr>d_size := d_size (downloaded d) + int n\<rparr>;
          totalSampled = sum_list (map h_size h);
          elapsed = (case h of [] \<Rightarrow> 0 | s # _ \<Rightarrow> (of_int (now - h_time s) :: rat) / 1000);
          sp = (if elapsed > 0 then of_int totalSampled / elapsed else 0);
          et = (if sp > 0 then of_int (tsize d - d_size dld) / sp else 0)
      in (d\<lparr>downloaded := dld, speed := sp, eta := et, history := h\<rparr>,
          download_progress \<lparr>d_amount = tamount d, d_size = tsize d\<rparr> dld sp \<lfloor>et\<rfloor> (ftype file)))"

text \<open>The first statement of both \<open>error\<close> handlers (lines 187 and 203).\<close>

definition onError :: "int \<Rightarrow> Downloader \<Rightarrow> Downloader" where
  "onError bytesDownloadedThisAttempt d =
     d\<lparr>downloaded := (downloaded d)\<lparr>d_size := d_size (downloaded d) - bytesDownloadedThisAttempt\<rparr>\<rparr>"

text \<open>\<open>chmodJavaFiles\<close>: \<open>fs.chmod\<close> is called for an executable off Windows only.\<close>

definition chmodJavaFiles :: "bool \<Rightarrow> File \<Rightarrow> string option \<Rightarrow> string option" where
  "chmodJavaFiles isWin32 file r = (if \<not> isWin32 \<and> executable file then r else None)"

text \<open>Lines 140 to 148, for the answer \<open>r\<close> of the platform.\<close>

definition openFile :: "nat \<Rightarrow> File \<Rightarrow> nat \<Rightarrow> response \<Rightarrow> batch \<Rightarrow> batch" where
  "openFile w file attempt r st =
     (case r of
        MkdirThrows msg \<Rightarrow> catchRetry w file attempt msg st
      | FetchThrows msg \<Rightarrow> catchRetry w file attempt msg (st\<lparr>log := log st @ [Fetch file]\<rparr>)
      | Response ok body statusText \<Rightarrow>
          (if \<not> ok \<or> \<not> body
           then catchRetry w file attempt (''Error while fetching '' @ name file @ '': '' @ statusText)
                  (st\<lparr>log := log st @ [Fetch file]\<rparr>)
           else setWorker w (Streaming file attempt 0) (st\<lparr>log := log st @ [Fetch file]\<rparr>)))"

subsection \<open>The workers\<close>

text \<open>One turn of a worker's \<open>while\<close> loop (lines 63 to 66).\<close>

definition workerLoop :: "nat \<Rightarrow> batch \<Rightarrow> batch" where
  "workerLoop w st =
     (case queue st of
        [] \<Rightarrow> resolveAll (setWorker w Done st)
      | file # rest \<Rightarrow> setWorker w (Starting file 0) (st\<lparr>queue := rest\<rparr>))"

text \<open>
  What a callback does when the worker is where the callback can run; anywhere else the
  callback is not pending and nothing happens.
\<close>

fun react :: "nat \<Rightarrow> worker \<Rightarrow> action \<Rightarrow> batch \<Rightarrow> batch" where
  "react w Idle Next st = workerLoop w st"
| "react w (Starting file attempt) (Respond r) st = openFile w file attempt r st"
| "react w (Streaming file attempt b) (Data n now) st =
     (case onData file n now (dl st) of
        (d, e) \<Rightarrow> emit e (setWorker w (Streaming file attempt (b + int n)) (st\<lparr>dl := d\<rparr>)))"
| "react w (Streaming file attempt b) (BodyError msg) st =
     catchRetry w file attempt msg (st\<lparr>dl := onError b (dl st)\<rparr>)"
| "react w (Streaming file attempt b) (StreamError msg) st =
     catchRetry w file attempt msg (st\<lparr>dl := onError b (dl st)\<rparr>)"
| "react w (Streaming file attempt b) Finish st = setWorker w (Finishing file attempt) st"
| "react w (Finishing file attempt) (Chmod r) st =
     (case chmodJavaFiles (win32 st) file r of
        None \<Rightarrow> succeed w st
      | Some msg \<Rightarrow> catchRetry w file attempt msg st)"
| "react w (Sleeping file attempt) Timer st = setWorker w (Starting file (attempt + 1)) st"
| "react w _ _ st = st"

definition step :: "nat \<times> action \<Rightarrow> batch \<Rightarrow> batch" where
  "step a st =
     (if fst a < length (workers st) then react (fst a) (workers st ! fst a) (snd a) st else st)"

text \<open>A schedule: which callback runs for which worker, in the order the event loop runs them.\<close>

fun run :: "(nat \<times> action) list \<Rightarrow> batch \<Rightarrow> batch" where
  "run [] st = st"
| "run (a # as) st = run as (step a st)"

subsection \<open>download\<close>

definition CONCURRENCY_LIMIT :: nat where
  "CONCURRENCY_LIMIT = 5"

text \<open>Line 43: the files to download.\<close>

definition resolveFiles :: "string \<Rightarrow> fsys \<Rightarrow> File list \<Rightarrow> bool \<Rightarrow> fsys \<times> (failure + File list)" where
  "resolveFiles dst fs fls skipCheck =
     (if \<not> skipCheck then getFilesToDownload dst fs fls else (fs, Inr fls))"

text \<open>Line 45: \<open>curr.size ?? 0\<close> summed.\<close>

definition totalSize :: "File list \<Rightarrow> int" where
  "totalSize fls = sum_list (map (\<lambda>curr. case fsize curr of None \<Rightarrow> 0 | Some s \<Rightarrow> s) fls)"

text \<open>
  \<open>download\<close> up to the point where the workers exist (lines 42 to 67): the file system
  after the check, and the batch, settled already when the check rejected or the call
  returned at line 55.
\<close>

definition download :: "bool \<Rightarrow> Downloader \<Rightarrow> fsys \<Rightarrow> File list \<Rightarrow> bool \<Rightarrow> fsys \<times> batch" where
  "download isWin32 d fs fls skipCheck =
     (case resolveFiles (dest d) fs fls skipCheck of
        (fs', Inl e) \<Rightarrow>
          (fs', \<lparr>dl = d, win32 = isWin32, queue = [], workers = [], log = [],
                 outcome = Some (Inl e)\<rparr>)
      | (fs', Inr filesToDownload) \<Rightarrow>
          (let d' = d\<lparr>tsize := totalSize filesToDownload,
                       tamount := int (length filesToDownload),
                       downloaded := \<lparr>d_amount = 0, d_size = 0\<rparr>,
                       error := False, speed := 0, eta := 0, history := []\<rparr>
           in if tsize d' = 0 \<or> filesToDownload = []
              then (fs', \<lparr>dl = d', win32 = isWin32, queue = [], workers = [],
                          log = [Emit (download_end (downloaded d'))],
                          outcome = Some (Inr ())\<rparr>)
              else (fs', \<lparr>dl = d', win32 = isWin32, queue = filesToDownload,
                          workers = replicate CONCURRENCY_LIMIT Idle, log = [],
                          outcome = None\<rparr>)))"

text \<open>The constructor, with the initial values of the fields (lines 18 to 34).\<close>

definition newDownloader :: "string \<Rightarrow> Downloader" where
  "newDownloader dst =
     \<lparr>dest = path_join [dst], tsize = 0, tamount = 0,
      downloaded = \<lparr>d_amount = 0, d_size = 0\<rparr>, error = False, speed = 0, eta = 0,
      history = []\<rparr>"

section \<open>Predicates on observations and batches\<close>

fun isEnd :: "obs \<Rightarrow> bool" where
  "isEnd (Emit (download_end c)) = True"
| "isEnd _ = False"

fun isFetch :: "obs \<Rightarrow> bool" where
  "isFetch (Fetch f) = True"
| "isFetch _ = False"









text \<open>
  The descriptor and the attempt number of an attempt that the callback makes fail: the
  \<open>throw\<close> and \<open>reject\<close> sites of \<open>downloadFile\<close>.
\<close>

fun failedAttempt :: "bool \<Rightarrow> worker \<Rightarrow> action \<Rightarrow> (File \<times> nat) option" where
  "failedAttempt isWin32 (Starting f a) (Respond (MkdirThrows msg)) = Some (f, a)"
| "failedAttempt isWin32 (Starting f a) (Respond (FetchThrows msg)) = Some (f, a)"
| "failedAttempt isWin32 (Starting f a) (Respond (Response ok body statusText)) =
     (if \<not> ok \<or> \<not> body then Some (f, a) else None)"
| "failedAttempt isWin32 (Streaming f a b) (BodyError msg) = Some (f, a)"
| "failedAttempt isWin32 (Streaming f a b) (StreamError msg) = Some (f, a)"
| "failedAttempt isWin32 (Finishing f a) (Chmod r) =
     (if chmodJavaFiles isWin32 f r = None then None else Some (f, a))"
| "failedAttempt isWin32 _ _ = None"







fun isTimer :: "obs \<Rightarrow> bool" where
  "isTimer (SetTimeout ms) = True"
| "isTimer _ = False"

text \<open>The callbacks of one attempt of worker \<open>w\<close> that receives the given chunks.\<close>

definition chunkActions :: "nat \<Rightarrow> (nat \<times> int) list \<Rightarrow> (nat \<times> action) list" where
  "chunkActions w chunks = map (\<lambda>c. (w, Data (fst c) (snd c))) chunks"

definition chunkBytes :: "(nat \<times> int) list \<Rightarrow> int" where
  "chunkBytes chunks = sum_list (map (\<lambda>c. int (fst c)) chunks)"

section \<open>Example inputs\<close>

definition ex_jar :: File where
  "ex_jar = \<lparr>name = ''a.jar'', path = ''libs'', url = Some ''http://h/a.jar'',
     fsize = Some 10, sha1 = Some ''abc'', ftype = FILE, executable = False\<rparr>"

definition ex_folder :: File where
  "ex_folder = \<lparr>name = ''libs'', path = [], url = None, fsize = None, sha1 = None,
     ftype = FOLDER, executable = False\<rparr>"

definition ex_nourl :: File where
  "ex_nourl = \<lparr>name = ''b.jar'', path = ''libs'', url = None, fsize = Some 7,
     sha1 = Some ''def'', ftype = FILE, executable = False\<rparr>"

text \<open>A destination that holds \<open>a.jar\<close> with the digest of \<open>ex_jar\<close>, and an empty one.\<close>

definition ex_fs :: fsys where
  "ex_fs = \<lparr>dirs = [''/d'', ''/d/libs''], files = [(''/d/libs/a.jar'', ''abc'')]\<rparr>"

definition no_fs :: fsys where
  "no_fs = \<lparr>dirs = [], files = []\<rparr>"



text \<open>The batch of \<open>a.jar\<close> alone, after worker 0 has taken it from the queue.\<close>

definition ex_started :: batch where
  "ex_started = run [(0, Next)] (snd (download False (newDownloader ''/d'') no_fs [ex_jar] False))"

text \<open>The same batch after two chunks of 4 and 3 bytes.\<close>

definition ex_streaming :: batch where
  "ex_streaming =
     run ((0, Respond (Response True True ''OK'')) # chunkActions 0 [(4, 100), (3, 200)]) ex_started"

text \<open>
  A schedule for a batch of one file in which every call of \<open>fetch\<close> throws: worker 0
  takes the file, and each failure but the last is followed by the retry timer.
\<close>

definition ex_always_failing :: "(nat \<times> action) list" where
  "ex_always_failing =
     [(0, Next),
      (0, Respond (FetchThrows ''boom'')), (0, Timer),
      (0, Respond (FetchThrows ''boom'')), (0, Timer),
      (0, Respond (FetchThrows ''boom'')), (0, Timer),
      (0, Respond (FetchThrows ''boom'')), (0, Timer),
      (0, Respond (FetchThrows ''boom'')), (0, Timer),
      (0, Respond (FetchThrows ''boom''))]"

section \<open>Evaluation and basic facts\<close>

lemma workers_init: "replicate CONCURRENCY_LIMIT Idle = [Idle, Idle, Idle, Idle, Idle]"
  by (simp add: CONCURRENCY_LIMIT_def eval_nat_numeral)

lemma list_update_Cons_numeral: "(x # xs)[numeral k := y] = x # xs[pred_numeral k := y]"
  by (simp add: numeral_eq_Suc)

lemmas model_defs = download_def resolveFiles_def getFilesToDownload_def checkEntry_def
  needsDownload_def access_def getFileHash_def mkdir_def ancestors_def path_join_def truthy_def
  totalSize_def workers_init list_update_Cons_numeral step_def workerLoop_def openFile_def
  catchRetry_def succeed_def setWorker_def emit_def rejectWith_def resolveAll_def onData_def
  onError_def chmodJavaFiles_def newDownloader_def Let_def

lemmas example_defs = ex_jar_def ex_folder_def ex_nourl_def ex_fs_def no_fs_def

lemmas pool_defs = catchRetry_def setWorker_def emit_def rejectWith_def resolveAll_def
  succeed_def openFile_def workerLoop_def


lemma run_append: "run (xs @ ys) st = run ys (run xs st)"
  by (induction xs arbitrary: st) auto

lemma run_no_workers: "workers st = [] \<Longrightarrow> run sched st = st"
  by (induction sched arbitrary: st) (auto simp: step_def)

lemma onData_fields:
  assumes "onData f n now d = (d', e)"
  shows "dest d' = dest d \<and> tsize d' = tsize d \<and> tamount d' = tamount d \<and> error d' = error d
    \<and> downloaded d' = (downloaded d)\<lparr>d_size := d_size (downloaded d) + int n\<rparr>
    \<and> history d' = prune now (history d @ [\<lparr>h_size = int n, h_time = now\<rparr>])
    \<and> e = download_progress \<lparr>d_amount = tamount d, d_size = tsize d\<rparr> (downloaded d')
           (speed d') \<lfloor>eta d'\<rfloor> (ftype f)"
  using assms by (auto simp: onData_def Let_def)

section \<open>The diff resolver\<close>

lemma checkEntry_cases:
  obtains e where "checkEntry dst fs f = (fs, Inl e)" "ftype f = FOLDER"
  | fs' where
      "checkEntry dst fs f =
         (fs', Inr (needsDownload fs' (path_join [dst, path f, name f]) f \<and> truthy (url f)))"
      "files fs' = files fs" "set (dirs fs) \<subseteq> set (dirs fs')" "ftype f = FILE \<longrightarrow> fs' = fs"
proof (cases "ftype f = FOLDER \<and> \<not> access fs (path_join [dst, path f, name f])")
  case True
  show ?thesis
  proof (cases "mkdir fs (path_join [dst, path f, name f])")
    case (Inl e)
    with True that(1) show ?thesis by (simp add: checkEntry_def)
  next
    case (Inr fs1)
    then have "files fs1 = files fs" "set (dirs fs) \<subseteq> set (dirs fs1)"
      by (auto simp: mkdir_def split: if_splits)
    with Inr True that(2) [of fs1] show ?thesis by (simp add: checkEntry_def)
  qed
next
  case False
  with that(2) [of fs] show ?thesis by (simp add: checkEntry_def)
qed

lemma checkAll_url:
  "checkAll dst fls (fs, acc, err) = (fs', sel, err') \<Longrightarrow>
   \<forall>f\<in>set acc. truthy (url f) \<Longrightarrow> \<forall>f\<in>set sel. truthy (url f)"
proof (induction fls arbitrary: fs acc err)
  case Nil
  then show ?case by simp
next
  case (Cons g rest)
  show ?case
  proof (cases rule: checkEntry_cases [of dst fs g])
    case (1 e)
    with Cons.prems
    have "checkAll dst rest (fs, acc, (if err = None then Some e else err)) = (fs', sel, err')"
      by simp
    from Cons.IH [OF this Cons.prems(2)] show ?thesis .
  next
    case (2 fs1)
    let ?b = "needsDownload fs1 (path_join [dst, path g, name g]) g \<and> truthy (url g)"
    from 2 Cons.prems
    have steps: "checkAll dst rest (fs1, (if ?b then acc @ [g] else acc), err) = (fs', sel, err')"
      by simp
    have "\<forall>f\<in>set (if ?b then acc @ [g] else acc). truthy (url f)"
      using Cons.prems(2) by auto
    from Cons.IH [OF steps this] show ?thesis .
  qed
qed

text \<open>
  \<^bold>\<open>Claim C10.\<close> An entry whose \<open>url\<close> is absent (or empty) is never in the list that
  \<open>getFilesToDownload\<close> returns, whatever the state of the local copy: line 106 pushes
  an entry only when \<open>file.url\<close> is truthy. Nothing is reported for such an entry: the
  function returns the list and emits no event.
\<close>

theorem no_url_never_selected:
  assumes "getFilesToDownload dst fs fls = (fs', Inr sel)" and "\<not> truthy (url f)"
  shows "f \<notin> set sel"
proof -
  obtain fs1 sel1 err1 where r: "checkAll dst fls (fs, [], None) = (fs1, sel1, err1)"
    by (cases "checkAll dst fls (fs, [], None)") auto
  with assms(1) have "sel1 = sel"
    by (auto simp: getFilesToDownload_def split: option.splits)
  with checkAll_url [OF r] have "\<forall>f\<in>set sel. truthy (url f)" by simp
  with assms(2) show ?thesis by blast
qed

text \<open>
  The entry \<open>b.jar\<close> has a digest and no URL and is missing from the empty destination;
  next to it \<open>a.jar\<close>, missing too, is selected.
\<close>

theorem no_url_never_selected_witness:
  "getFilesToDownload ''/d'' no_fs [ex_nourl, ex_jar] = (no_fs, Inr [ex_jar])
   \<and> \<not> truthy (url ex_nourl)
   \<and> \<not> access no_fs (path_join [''/d'', path ex_nourl, name ex_nourl])
   \<and> ex_nourl \<notin> set [ex_jar]"
proof -
  have r: "getFilesToDownload ''/d'' no_fs [ex_nourl, ex_jar] = (no_fs, Inr [ex_jar])"
    by (simp add: model_defs example_defs)
  have u: "\<not> truthy (url ex_nourl)"
    by (simp add: truthy_def ex_nourl_def)
  have a: "\<not> access no_fs (path_join [''/d'', path ex_nourl, name ex_nourl])"
    by (simp add: access_def no_fs_def)
  from no_url_never_selected [OF r u] r u a show ?thesis by simp
qed






section \<open>Invariants of the worker pool\<close>
















text \<open>
  \<^bold>\<open>Claim C5.\<close> When the files to download are none, or their sizes sum to zero, the call
  resolves at once with the single event \<open>download_end\<close> carrying \<open>{amount: 0, size: 0}\<close>;
  no worker exists, so under every schedule the observations stay this one event: no
  \<open>fetch\<close> is called for any entry.
\<close>

theorem zero_work_short_circuit:
  assumes "resolveFiles (dest d) fs fls skipCheck = (fs', Inr sel)"
    and "sel = [] \<or> totalSize sel = 0"
  shows "log (run sched (snd (download isWin32 d fs fls skipCheck)))
           = [Emit (download_end \<lparr>d_amount = 0, d_size = 0\<rparr>)]
    \<and> outcome (run sched (snd (download isWin32 d fs fls skipCheck))) = Some (Inr ())
    \<and> filter isFetch (log (run sched (snd (download isWin32 d fs fls skipCheck)))) = []"
proof -
  let ?b = "snd (download isWin32 d fs fls skipCheck)"
  from assms have b: "workers ?b = [] \<and> outcome ?b = Some (Inr ())
      \<and> log ?b = [Emit (download_end \<lparr>d_amount = 0, d_size = 0\<rparr>)]"
    by (auto simp: download_def Let_def)
  then have "run sched ?b = ?b" by (simp add: run_no_workers)
  with b show ?thesis by simp
qed

text \<open>
  With the skip flag, a manifest of one folder (no size) sums to zero: nothing is fetched,
  whatever callbacks the schedule names.
\<close>

theorem zero_work_short_circuit_witness:
  "resolveFiles (dest (newDownloader ''/d'')) no_fs [ex_folder] True = (no_fs, Inr [ex_folder])
   \<and> totalSize [ex_folder] = 0
   \<and> log (run [(0, Next), (0, Respond (Response True True ''OK''))]
        (snd (download False (newDownloader ''/d'') no_fs [ex_folder] True)))
       = [Emit (download_end \<lparr>d_amount = 0, d_size = 0\<rparr>)]
   \<and> outcome (run [(0, Next), (0, Respond (Response True True ''OK''))]
        (snd (download False (newDownloader ''/d'') no_fs [ex_folder] True))) = Some (Inr ())"
proof -
  have r: "resolveFiles (dest (newDownloader ''/d'')) no_fs [ex_folder] True
      = (no_fs, Inr [ex_folder])"
    by (simp add: resolveFiles_def)
  have z: "[ex_folder] = [] \<or> totalSize [ex_folder] = 0"
    by (simp add: totalSize_def ex_folder_def)
  from zero_work_short_circuit [OF r z, of "[(0, Next), (0, Respond (Response True True ''OK''))]" False]
    r z
  show ?thesis by simp
qed





















section \<open>The throughput tracker\<close>







section \<open>Failed attempts\<close>

lemma react_length: "length (workers (react w x act st)) = length (workers st)"
  by (cases x; cases act)
     (auto simp: pool_defs Let_def
        split: response.splits list.splits option.splits prod.splits if_splits)

lemma step_length: "length (workers (step a st)) = length (workers st)"
  by (simp add: step_def react_length)

lemma step_Data:
  assumes "w < length (workers st)" and "workers st ! w = Streaming f a b"
  shows "workers (step (w, Data n now) st) ! w = Streaming f a (b + int n)
    \<and> d_size (downloaded (dl (step (w, Data n now) st))) = d_size (downloaded (dl st)) + int n
    \<and> d_amount (downloaded (dl (step (w, Data n now) st))) = d_amount (downloaded (dl st))"
proof -
  obtain d' e where o: "onData f n now (dl st) = (d', e)"
    by (cases "onData f n now (dl st)") auto
  from onData_fields [OF o] o assms show ?thesis
    by (simp add: step_def emit_def setWorker_def)
qed

lemma run_chunks:
  assumes "w < length (workers st)" and "workers st ! w = Streaming f a b"
  shows "workers (run (chunkActions w chunks) st) ! w = Streaming f a (b + chunkBytes chunks)
    \<and> d_size (downloaded (dl (run (chunkActions w chunks) st)))
        = d_size (downloaded (dl st)) + chunkBytes chunks
    \<and> d_amount (downloaded (dl (run (chunkActions w chunks) st))) = d_amount (downloaded (dl st))
    \<and> length (workers (run (chunkActions w chunks) st)) = length (workers st)"
  using assms
proof (induction chunks arbitrary: st b)
  case Nil
  then show ?case by (simp add: chunkActions_def chunkBytes_def)
next
  case (Cons c chunks)
  let ?st1 = "step (w, Data (fst c) (snd c)) st"
  from step_Data [OF Cons.prems, of "fst c" "snd c"]
  have s1: "workers ?st1 ! w = Streaming f a (b + int (fst c))"
    "d_size (downloaded (dl ?st1)) = d_size (downloaded (dl st)) + int (fst c)"
    "d_amount (downloaded (dl ?st1)) = d_amount (downloaded (dl st))"
    by simp_all
  have l1: "w < length (workers ?st1)" using Cons.prems(1) by (simp add: step_length)
  from Cons.IH [OF l1 s1(1)] s1 show ?case
    by (simp add: chunkActions_def chunkBytes_def step_length)
qed

lemma step_Opened:
  assumes "w < length (workers st)" and "workers st ! w = Starting f a"
  shows "workers (step (w, Respond (Response True True s)) st) ! w = Streaming f a 0
    \<and> dl (step (w, Respond (Response True True s)) st) = dl st"
  using assms by (simp add: step_def openFile_def setWorker_def)

text \<open>
  \<^bold>\<open>Claim C8.\<close> When the body or the write stream reports an error while worker \<open>w\<close>
  streams with \<open>b\<close> bytes counted in this attempt, the fields of the instance afterwards
  are those before with \<open>b\<close> subtracted from \<open>downloaded.size\<close>: \<open>downloaded.amount\<close>,
  the totals, the history (with the samples of the failed attempt), \<open>speed\<close> and \<open>eta\<close>
  are as they were, and so is the queue. And \<open>b\<close> is what the attempt counted: an attempt
  that starts, receives any chunks and then fails leaves \<open>downloaded.size\<close> where it was
  when the attempt started.
\<close>

theorem failed_attempt_rollback:
  assumes "w < length (workers st)" and "act = BodyError msg \<or> act = StreamError msg"
  shows "(\<forall>f a b. workers st ! w = Streaming f a b \<longrightarrow>
           dl (step (w, act) st)
             = (dl st)\<lparr>downloaded :=
                 (downloaded (dl st))\<lparr>d_size := d_size (downloaded (dl st)) - b\<rparr>\<rparr>
           \<and> d_amount (downloaded (dl (step (w, act) st))) = d_amount (downloaded (dl st))
           \<and> tsize (dl (step (w, act) st)) = tsize (dl st)
           \<and> tamount (dl (step (w, act) st)) = tamount (dl st)
           \<and> history (dl (step (w, act) st)) = history (dl st)
           \<and> queue (step (w, act) st) = queue st)
    \<and> (\<forall>f a s chunks. workers st ! w = Starting f a \<longrightarrow>
           workers (run ((w, Respond (Response True True s)) # chunkActions w chunks) st) ! w
             = Streaming f a (chunkBytes chunks)
           \<and> d_size (downloaded (dl (run ((w, Respond (Response True True s)) # chunkActions w chunks) st)))
             = d_size (downloaded (dl st)) + chunkBytes chunks
           \<and> d_size (downloaded (dl (run ((w, Respond (Response True True s)) # chunkActions w chunks
                                          @ [(w, act)]) st)))
             = d_size (downloaded (dl st)))"
proof -
  have A: "\<And>st f a b. w < length (workers st) \<Longrightarrow> workers st ! w = Streaming f a b \<Longrightarrow>
      dl (step (w, act) st) = onError b (dl st) \<and> queue (step (w, act) st) = queue st"
    using assms(2)
    by (auto simp: step_def catchRetry_def setWorker_def emit_def rejectWith_def)
  have 1: "\<forall>f a b. workers st ! w = Streaming f a b \<longrightarrow>
           dl (step (w, act) st)
             = (dl st)\<lparr>downloaded :=
                 (downloaded (dl st))\<lparr>d_size := d_size (downloaded (dl st)) - b\<rparr>\<rparr>
           \<and> d_amount (downloaded (dl (step (w, act) st))) = d_amount (downloaded (dl st))
           \<and> tsize (dl (step (w, act) st)) = tsize (dl st)
           \<and> tamount (dl (step (w, act) st)) = tamount (dl st)
           \<and> history (dl (step (w, act) st)) = history (dl st)
           \<and> queue (step (w, act) st) = queue st"
    using A [OF assms(1)] by (simp add: onError_def)
  have 2: "\<forall>f a s chunks. workers st ! w = Starting f a \<longrightarrow>
           workers (run ((w, Respond (Response True True s)) # chunkActions w chunks) st) ! w
             = Streaming f a (chunkBytes chunks)
           \<and> d_size (downloaded (dl (run ((w, Respond (Response True True s)) # chunkActions w chunks) st)))
             = d_size (downloaded (dl st)) + chunkBytes chunks
           \<and> d_size (downloaded (dl (run ((w, Respond (Response True True s)) # chunkActions w chunks
                                          @ [(w, act)]) st)))
             = d_size (downloaded (dl st))"
  proof (intro allI impI)
    fix f a s chunks
    assume start: "workers st ! w = Starting f a"
    let ?st1 = "step (w, Respond (Response True True s)) st"
    let ?st2 = "run (chunkActions w chunks) ?st1"
    from step_Opened [OF assms(1) start, of s]
    have o: "workers ?st1 ! w = Streaming f a 0" "dl ?st1 = dl st" by simp_all
    have l1: "w < length (workers ?st1)" using assms(1) by (simp add: step_length)
    from run_chunks [OF l1 o(1), of chunks] o(2)
    have c: "workers ?st2 ! w = Streaming f a (chunkBytes chunks)"
      "d_size (downloaded (dl ?st2)) = d_size (downloaded (dl st)) + chunkBytes chunks"
      "w < length (workers ?st2)"
      using l1 by simp_all
    from A [OF c(3) c(1)] c(2)
    have "d_size (downloaded (dl (step (w, act) ?st2))) = d_size (downloaded (dl st))"
      by (simp add: onError_def)
    with c show "workers (run ((w, Respond (Response True True s)) # chunkActions w chunks) st) ! w
             = Streaming f a (chunkBytes chunks)
           \<and> d_size (downloaded (dl (run ((w, Respond (Response True True s)) # chunkActions w chunks) st)))
             = d_size (downloaded (dl st)) + chunkBytes chunks
           \<and> d_size (downloaded (dl (run ((w, Respond (Response True True s)) # chunkActions w chunks
                                          @ [(w, act)]) st)))
             = d_size (downloaded (dl st))"
      by (simp add: run_append)
  qed
  from 1 2 show ?thesis by blast
qed


lemma ex_started_eval:
  "ex_started =
     \<lparr>dl = (newDownloader ''/d'')\<lparr>tsize := 10, tamount := 1\<rparr>, win32 = False, queue = [],
      workers = [Starting ex_jar 0, Idle, Idle, Idle, Idle], log = [], outcome = None\<rparr>"
  by (simp add: ex_started_def model_defs example_defs)

lemma ex_streaming_eval:
  "workers ex_streaming = [Streaming ex_jar 0 7, Idle, Idle, Idle, Idle]
   \<and> downloaded (dl ex_streaming) = \<lparr>d_amount = 0, d_size = 7\<rparr>
   \<and> history (dl ex_streaming) = [\<lparr>h_size = 4, h_time = 100\<rparr>, \<lparr>h_size = 3, h_time = 200\<rparr>]"
  by (simp add: ex_streaming_def ex_started_eval chunkActions_def model_defs)

text \<open>
  \<open>a.jar\<close> has received 4 and 3 bytes when the body fails: the 7 bytes are taken back,
  the counter is where it was when the attempt started, and the two samples stay in the
  history.
\<close>

theorem failed_attempt_rollback_witness:
  "0 < length (workers ex_started) \<and> workers ex_started ! 0 = Starting ex_jar 0
   \<and> chunkBytes [(4, 100), (3, 200)] = 7
   \<and> workers ex_streaming ! 0 = Streaming ex_jar 0 7
   \<and> d_size (downloaded (dl ex_started)) = 0
   \<and> d_size (downloaded (dl ex_streaming)) = 7
   \<and> d_size (downloaded (dl (step (0, BodyError ''reset'') ex_streaming))) = 0
   \<and> d_size (downloaded (dl (run ((0, Respond (Response True True ''OK''))
          # chunkActions 0 [(4, 100), (3, 200)] @ [(0, BodyError ''reset'')]) ex_started))) = 0
   \<and> history (dl (step (0, BodyError ''reset'') ex_streaming))
       = [\<lparr>h_size = 4, h_time = 100\<rparr>, \<lparr>h_size = 3, h_time = 200\<rparr>]
   \<and> tsize (dl (step (0, BodyError ''reset'') ex_streaming)) = 10"
proof -
  have l0: "0 < length (workers ex_started)" and w0: "workers ex_started ! 0 = Starting ex_jar 0"
    and z0: "d_size (downloaded (dl ex_started)) = 0" and t0: "tsize (dl ex_started) = 10"
    by (simp_all add: ex_started_eval newDownloader_def)
  have l1: "0 < length (workers ex_streaming)"
    and w1: "workers ex_streaming ! 0 = Streaming ex_jar 0 7"
    and z1: "d_size (downloaded (dl ex_streaming)) = 7"
    and h1: "history (dl ex_streaming) = [\<lparr>h_size = 4, h_time = 100\<rparr>, \<lparr>h_size = 3, h_time = 200\<rparr>]"
    by (simp_all add: ex_streaming_eval)
  have t1: "tsize (dl ex_streaming) = 10"
    by (simp add: ex_streaming_def ex_started_eval chunkActions_def model_defs)
  have cb: "chunkBytes [(4, 100), (3, 200)] = 7" by (simp add: chunkBytes_def)
  have e: "BodyError ''reset'' = BodyError ''reset'' \<or> BodyError ''reset'' = StreamError ''reset''"
    by simp
  from failed_attempt_rollback [OF l1 e] w1 z1 h1 t1
  have A: "d_size (downloaded (dl (step (0, BodyError ''reset'') ex_streaming))) = 0"
    "history (dl (step (0, BodyError ''reset'') ex_streaming))
       = [\<lparr>h_size = 4, h_time = 100\<rparr>, \<lparr>h_size = 3, h_time = 200\<rparr>]"
    "tsize (dl (step (0, BodyError ''reset'') ex_streaming)) = 10"
    by simp_all
  from failed_attempt_rollback [OF l0 e] w0 z0
  have B: "d_size (downloaded (dl (run ((0, Respond (Response True True ''OK''))
          # chunkActions 0 [(4, 100), (3, 200)] @ [(0, BodyError ''reset'')]) ex_started))) = 0"
    by simp
  from l0 w0 cb w1 z0 z1 A B show ?thesis by blast
qed

text \<open>
  \<^bold>\<open>Claim C9.\<close> When a callback makes attempt number \<open>n\<close> of worker \<open>w\<close> fail and
  \<open>n < 5\<close>, exactly one timer is set, with the delay \<open>1000 * (n + 1)\<close> milliseconds, the
  worker waits for it, and when it fires attempt \<open>n + 1\<close> starts: 1000 ms after attempt
  0, 2000 ms after attempt 1, up to 5000 ms after attempt 4. The failure does not settle
  the call.
\<close>

theorem retry_delay_linear:
  assumes "w < length (workers st)"
    and "failedAttempt (win32 st) (workers st ! w) act = Some (f, n)"
    and "n < 5"
  shows "filter isTimer (log (step (w, act) st))
           = filter isTimer (log st) @ [SetTimeout (1000 * (n + 1))]
    \<and> last (log (step (w, act) st)) = SetTimeout (1000 * (n + 1))
    \<and> workers (step (w, act) st) ! w = Sleeping f n
    \<and> workers (step (w, Timer) (step (w, act) st)) ! w = Starting f (n + 1)
    \<and> outcome (step (w, act) st) = outcome st"
proof -
  have len: "w < length (workers (step (w, act) st))"
    using assms(1) by (simp add: step_length)
  have 1: "filter isTimer (log (step (w, act) st))
           = filter isTimer (log st) @ [SetTimeout (1000 * (n + 1))]
    \<and> last (log (step (w, act) st)) = SetTimeout (1000 * (n + 1))
    \<and> workers (step (w, act) st) ! w = Sleeping f n
    \<and> outcome (step (w, act) st) = outcome st"
    using assms
    by (cases "workers st ! w"; cases act)
       (auto simp: step_def openFile_def catchRetry_def setWorker_def onError_def
          split: response.splits if_splits)
  with len have "workers (step (w, Timer) (step (w, act) st)) ! w = Starting f (n + 1)"
    by (simp add: step_def setWorker_def)
  with 1 show ?thesis by simp
qed

text \<open>
  The first attempt on \<open>a.jar\<close> fails in \<open>fetch\<close>: a timer of 1000 ms. The second attempt
  gets a response that is not \<open>ok\<close>: a timer of 2000 ms.
\<close>

theorem retry_delay_linear_witness:
  "0 < length (workers ex_started)
   \<and> failedAttempt (win32 ex_started) (workers ex_started ! 0) (Respond (FetchThrows ''boom''))
       = Some (ex_jar, 0)
   \<and> log (step (0, Respond (FetchThrows ''boom'')) ex_started) = [Fetch ex_jar, SetTimeout 1000]
   \<and> workers (step (0, Timer) (step (0, Respond (FetchThrows ''boom'')) ex_started)) ! 0
       = Starting ex_jar 1
   \<and> failedAttempt False (Starting ex_jar 1) (Respond (Response False True ''Not Found''))
       = Some (ex_jar, 1)
   \<and> last (log (step (0, Respond (Response False True ''Not Found''))
        (step (0, Timer) (step (0, Respond (FetchThrows ''boom'')) ex_started))))
       = SetTimeout 2000"
proof -
  let ?st1 = "step (0, Respond (FetchThrows ''boom'')) ex_started"
  let ?st2 = "step (0, Timer) ?st1"
  have l0: "0 < length (workers ex_started)" by (simp add: ex_started_eval)
  have f0: "failedAttempt (win32 ex_started) (workers ex_started ! 0) (Respond (FetchThrows ''boom''))
       = Some (ex_jar, 0)"
    by (simp add: ex_started_eval)
  have g0: "log ?st1 = [Fetch ex_jar, SetTimeout 1000]"
    by (simp add: ex_started_eval model_defs)
  from retry_delay_linear [OF l0 f0]
  have s2: "workers ?st2 ! 0 = Starting ex_jar 1" by simp
  have l2: "0 < length (workers ?st2)" using l0 by (simp add: step_length)
  have w2: "win32 ?st2 = False" by (simp add: ex_started_eval model_defs)
  have f1: "failedAttempt False (Starting ex_jar 1) (Respond (Response False True ''Not Found''))
       = Some (ex_jar, 1)"
    by simp
  with s2 w2
  have f2: "failedAttempt (win32 ?st2) (workers ?st2 ! 0) (Respond (Response False True ''Not Found''))
       = Some (ex_jar, 1)"
    by simp
  from retry_delay_linear [OF l2 f2]
  have t2: "last (log (step (0, Respond (Response False True ''Not Found'')) ?st2)) = SetTimeout 2000"
    by simp
  from l0 f0 g0 s2 f1 t2 show ?thesis by blast
qed


section \<open>Where the code departs from the specification\<close>

text \<open>
  \<^bold>\<open>Claim C1.\<close> The claim has the retry wrapper make 5 attempts; the code makes 6. The
  test \<open>attempt < 5\<close> of line 121 lets the attempts numbered 0 to 5 run, while the message
  of line 130 says \<open>after 5 attempts\<close>. For a file whose every \<open>fetch\<close> throws: \<open>fetch\<close>
  is called 6 times, with 5 timers in between; then one \<open>download_error\<close> with the name,
  the kind and the message, the call rejects with \<open>DOWNLOAD_ERROR\<close>, and no
  \<open>download_end\<close> is emitted. After the fifth failure the worker is waiting for a timer,
  and neither event nor rejection has happened.
\<close>

theorem retry_exhaustion_six_attempts:
  "log (run ex_always_failing (snd (download False (newDownloader ''/d'') no_fs [ex_jar] False)))
     = [Fetch ex_jar, SetTimeout 1000, Fetch ex_jar, SetTimeout 2000, Fetch ex_jar,
        SetTimeout 3000, Fetch ex_jar, SetTimeout 4000, Fetch ex_jar, SetTimeout 5000,
        Fetch ex_jar, Emit (download_error ''a.jar'' FILE ''boom'')]
   \<and> length (filter isFetch
        (log (run ex_always_failing
          (snd (download False (newDownloader ''/d'') no_fs [ex_jar] False))))) = 6
   \<and> outcome (run ex_always_failing (snd (download False (newDownloader ''/d'') no_fs [ex_jar] False)))
     = Some (Inl (EMLLibError DOWNLOAD_ERROR ''Failed to download a.jar after 5 attempts''))
   \<and> filter isEnd
        (log (run ex_always_failing
          (snd (download False (newDownloader ''/d'') no_fs [ex_jar] False)))) = []
   \<and> length (filter isFetch
        (log (run (take 10 ex_always_failing)
          (snd (download False (newDownloader ''/d'') no_fs [ex_jar] False))))) = 5
   \<and> workers (run (take 10 ex_always_failing)
        (snd (download False (newDownloader ''/d'') no_fs [ex_jar] False))) ! 0
     = Sleeping ex_jar 4
   \<and> outcome (run (take 10 ex_always_failing)
        (snd (download False (newDownloader ''/d'') no_fs [ex_jar] False))) = None"
  by (simp add: ex_always_failing_def model_defs example_defs)

text \<open>
  \<^bold>\<open>Claim C2.\<close> The claim has the skip flag keep folders and entries without a URL out
  of the queue; line 43 hands the whole list to the pool. With a folder, a file without
  URL and \<open>a.jar\<close>, all three are queued and counted in the total, and the first worker
  calls \<open>fetch\<close> for the folder. Without the flag, on the same destination, only \<open>a.jar\<close>
  is queued.
\<close>

theorem skipCheck_queues_every_entry:
  "resolveFiles dst fs fls True = (fs, Inr fls)
   \<and> queue (snd (download False (newDownloader ''/d'') no_fs [ex_folder, ex_nourl, ex_jar] True))
     = [ex_folder, ex_nourl, ex_jar]
   \<and> tamount (dl (snd (download False (newDownloader ''/d'') no_fs [ex_folder, ex_nourl, ex_jar] True)))
     = 3
   \<and> log (run [(0, Next), (0, Respond (FetchThrows ''Invalid URL''))]
        (snd (download False (newDownloader ''/d'') no_fs [ex_folder, ex_nourl, ex_jar] True)))
     = [Fetch ex_folder, SetTimeout 1000]
   \<and> queue (snd (download False (newDownloader ''/d'') no_fs [ex_folder, ex_nourl, ex_jar] False))
     = [ex_jar]"
  by (simp add: model_defs example_defs)


end
